theory Spec2Isabelle
  imports Complex_Main
begin

section \<open>Configuration (config.py)\<close>

text \<open>
  The class \<^verbatim>\<open>Config\<close> holds nine class attributes; \<^verbatim>\<open>config = Config()\<close> is the single
  instance every other module imports.
\<close>

record Config =
  OLLAMA_BASE_URL :: string
  OLLAMA_MODEL :: string
  EMBEDDING_MODEL :: string
  CHROMA_PERSIST_DIR :: string
  COLLECTION_NAME :: string
  CHUNK_SIZE :: nat
  CHUNK_OVERLAP :: nat
  TOP_K_RESULTS :: nat
  SUPPORTED_EXTENSIONS :: "string list"

definition config :: Config where
  "config = \<lparr>
     OLLAMA_BASE_URL = ''http://localhost:11434'',
     OLLAMA_MODEL = ''llama3.2:latest'',
     EMBEDDING_MODEL = ''all-MiniLM-L6-v2'',
     CHROMA_PERSIST_DIR = ''./chroma_db'',
     COLLECTION_NAME = ''document_qa'',
     CHUNK_SIZE = 500,
     CHUNK_OVERLAP = 50,
     TOP_K_RESULTS = 3,
     SUPPORTED_EXTENSIONS = [''.pdf'', ''.txt'', ''.docx'', ''.md'']
   \<rparr>"

section \<open>Exceptions and values shared by the modules\<close>

text \<open>
  A Python exception is a value: its class and the text \<^verbatim>\<open>str(e)\<close> gives. Only classes
  below \<^verbatim>\<open>Exception\<close> are modelled (every \<^verbatim>\<open>except Exception\<close> and every bare
  \<^verbatim>\<open>except\<close> of the sources catches all of them); interrupts of the interpreter
  (\<^verbatim>\<open>KeyboardInterrupt\<close>, \<^verbatim>\<open>SystemExit\<close>) are outside the model.
  A computation that may raise returns \<open>exn + 'a\<close>, with \<open>Inl\<close> the exception raised.
\<close>

datatype exn =
    Exception string
  | ValueError string
  | AttributeError string
  | OSError string

fun str :: "exn \<Rightarrow> string" where
  "str (Exception m) = m"
| "str (ValueError m) = m"
| "str (AttributeError m) = m"
| "str (OSError m) = m"

text \<open>\<^verbatim>\<open>type(e).__name__\<close>: what a caller can dispatch on in an \<^verbatim>\<open>except\<close> clause.\<close>

fun class_name :: "exn \<Rightarrow> string" where
  "class_name (Exception m) = ''Exception''"
| "class_name (ValueError m) = ''ValueError''"
| "class_name (AttributeError m) = ''AttributeError''"
| "class_name (OSError m) = ''OSError''"

text \<open>A LangChain document: text and provenance metadata.\<close>

record Document =
  page_content :: string
  metadata :: "(string \<times> string) list"

section \<open>Handles of the external collaborators\<close>

text \<open>
  The objects the engine holds are built by third-party constructors. A handle is modelled
  as the record of the arguments it was constructed with; whether a constructor or a call
  on a handle succeeds is decided by the collaborators (record \<open>collaborators\<close> below).
\<close>

record OllamaEmbeddings =
  emb_model :: string
  emb_base_url :: string

record OllamaLLM =
  llm_model :: string
  llm_base_url :: string
  temperature :: real

record Chroma =
  collection_name :: string
  embedding_function :: OllamaEmbeddings
  persist_directory :: string

record PromptTemplate =
  template :: string
  input_variables :: "string list"

record RetrievalQA =
  chain_llm :: OllamaLLM
  chain_type :: string
  retriever :: Chroma
  search_k :: nat
  prompt :: PromptTemplate
  return_source_documents :: bool

text \<open>What \<^verbatim>\<open>qa_chain.invoke\<close> returns: the keys \<^verbatim>\<open>result\<close> and \<^verbatim>\<open>source_documents\<close>.\<close>

record chain_output =
  result :: string
  source_documents :: "Document list"

text \<open>The four loader classes \<^verbatim>\<open>load_document\<close> chooses from.\<close>

datatype loader = PyPDFLoader | TextLoader | Docx2txtLoader | UnstructuredMarkdownLoader

text \<open>
  The behaviour of the collaborators is a parameter of every operation: each field says
  what one external call does on given arguments, \<open>Inl e\<close> when it raises \<open>e\<close>.
  The theorems hold for every value of this record.
\<close>

record collaborators =
  new_embeddings :: "string \<Rightarrow> string \<Rightarrow> exn + unit"
  persistent_client :: "string \<Rightarrow> exn + unit"
  new_llm :: "string \<Rightarrow> string \<Rightarrow> real \<Rightarrow> exn + unit"
  chroma_from_documents ::
    "Document list \<Rightarrow> OllamaEmbeddings \<Rightarrow> string \<Rightarrow> string \<Rightarrow> exn + unit"
  empty_batch_message :: string
  chroma_init :: "string \<Rightarrow> OllamaEmbeddings \<Rightarrow> string \<Rightarrow> exn + unit"
  chain_invoke :: "RetrievalQA \<Rightarrow> string \<Rightarrow> exn + chain_output"
  handle_len :: "Chroma \<Rightarrow> exn + nat"
  collection_count :: "Chroma \<Rightarrow> exn + nat"
  delete_collection :: "Chroma \<Rightarrow> string \<Rightarrow> exn + unit"
  loader_load :: "loader \<Rightarrow> string \<Rightarrow> exn + Document list"
  splitter_split :: "nat \<Rightarrow> nat \<Rightarrow> Document list \<Rightarrow> Document list"

text \<open>
  Every external call an operation makes is also recorded, in order, so that a statement
  can say which calls were made and with which arguments.
\<close>

datatype call =
    FromDocuments "Document list" OllamaEmbeddings string string
  | ChromaInit string OllamaEmbeddings string
  | Invoke RetrievalQA string
  | Len Chroma
  | Count Chroma
  | DeleteCollection Chroma string
  | Print string

section \<open>The retrieval engine (rag\_engine.py)\<close>

text \<open>
  The attributes of a \<^verbatim>\<open>RAGEngine\<close>. The two handles assigned \<^verbatim>\<open>None\<close> by the constructor
  are options. In a condition \<^verbatim>\<open>None\<close> is false. A chain that is set has no length and is
  true, so \<^verbatim>\<open>if not self.qa_chain\<close> tests for \<^verbatim>\<open>None\<close>. A vector store that is set has a
  length, the number of entries of its collection, which Python asks for to decide the
  condition (\<open>handle_len\<close>, an external call that may raise): the store is true when the
  collection is not empty.
\<close>

record RAGEngine =
  embeddings :: OllamaEmbeddings
  chroma_client :: string
  llm :: OllamaLLM
  vectorstore :: "Chroma option"
  qa_chain :: "RetrievalQA option"

text \<open>The query result dictionary, keys \<^verbatim>\<open>answer\<close> and \<^verbatim>\<open>sources\<close>.\<close>

record query_result =
  answer :: string
  sources :: "Document list"

text \<open>The statistics dictionary, key \<^verbatim>\<open>total_chunks\<close>.\<close>

record stats =
  total_chunks :: nat

text \<open>
  \<^verbatim>\<open>RAGEngine.__init__\<close>: three constructors in the order of the source, none guarded by a
  \<^verbatim>\<open>try\<close>; then both handles are set to \<^verbatim>\<open>None\<close>.
\<close>

definition RAGEngine_init :: "collaborators \<Rightarrow> exn + RAGEngine" where
  "RAGEngine_init env =
     (case new_embeddings env ''nomic-embed-text'' (OLLAMA_BASE_URL config) of
        Inl e \<Rightarrow> Inl e
      | Inr _ \<Rightarrow>
     (case persistent_client env (CHROMA_PERSIST_DIR config) of
        Inl e \<Rightarrow> Inl e
      | Inr _ \<Rightarrow>
     (case new_llm env (OLLAMA_MODEL config) (OLLAMA_BASE_URL config) 0 of
        Inl e \<Rightarrow> Inl e
      | Inr _ \<Rightarrow>
          Inr \<lparr>embeddings =
                 \<lparr>emb_model = ''nomic-embed-text'', emb_base_url = OLLAMA_BASE_URL config\<rparr>,
               chroma_client = CHROMA_PERSIST_DIR config,
               llm = \<lparr>llm_model = OLLAMA_MODEL config,
                      llm_base_url = OLLAMA_BASE_URL config,
                      temperature = 0\<rparr>,
               vectorstore = None,
               qa_chain = None\<rparr>)))"

definition prompt_template :: string where
  \<open>prompt_template = ''Use the following context to answer the question. If you cannot answer based on the context, say "I don't have enough information to answer this question."\<newline>\<newline>Context: {context}\<newline>\<newline>Question: {question}\<newline>\<newline>Answer:''\<close>

text \<open>
  \<^verbatim>\<open>_setup_qa_chain\<close>: assembles the prompt, the retriever over \<^verbatim>\<open>self.vectorstore\<close> and the
  chain; it performs no I/O. With no vector store, \<^verbatim>\<open>self.vectorstore.as_retriever\<close> is an
  attribute access on \<^verbatim>\<open>None\<close> and raises.
\<close>

definition setup_qa_chain :: "RAGEngine \<Rightarrow> exn + RAGEngine" where
  "setup_qa_chain s =
     (case vectorstore s of
        None \<Rightarrow> Inl (AttributeError ''NoneType object has no attribute as_retriever'')
      | Some vs \<Rightarrow>
          Inr (s\<lparr>qa_chain := Some
                 \<lparr>chain_llm = llm s,
                  chain_type = ''stuff'',
                  retriever = vs,
                  search_k = TOP_K_RESULTS config,
                  prompt = \<lparr>template = prompt_template,
                            input_variables = [''context'', ''question'']\<rparr>,
                  return_source_documents = True\<rparr>\<rparr>))"

text \<open>
  An engine operation returns what the call returned or raised, the engine afterwards
  (attributes assigned before a raise stay assigned) and the external calls made.
\<close>

type_synonym 'a outcome = "(exn + 'a) \<times> RAGEngine \<times> call list"

text \<open>
  Modelled from the spec: \<^verbatim>\<open>Chroma.from_documents\<close> belongs to a third-party library and is
  not part of the sources. The spec's ingest "requires non-empty chunks; fails with
  EmptyInput otherwise"; the check is not written in \<^verbatim>\<open>create_vectorstore\<close> but made by the
  store, which opens the collection and then refuses to add an empty batch with a
  \<^verbatim>\<open>ValueError\<close> (its text is the store's, \<open>empty_batch_message\<close>). For every sequence the
  call may also raise what the collaborators raise.
\<close>

definition Chroma_from_documents ::
  "collaborators \<Rightarrow> Document list \<Rightarrow> OllamaEmbeddings \<Rightarrow> string \<Rightarrow> string \<Rightarrow> exn + unit" where
  "Chroma_from_documents env documents emb name dir =
     (case chroma_from_documents env documents emb name dir of
        Inl e \<Rightarrow> Inl e
      | Inr u \<Rightarrow>
          if documents = [] then Inl (ValueError (empty_batch_message env)) else Inr u)"

definition create_vectorstore ::
  "collaborators \<Rightarrow> RAGEngine \<Rightarrow> Document list \<Rightarrow> nat outcome" where
  "create_vectorstore env s documents =
     (case Chroma_from_documents env documents (embeddings s)
             (COLLECTION_NAME config) (CHROMA_PERSIST_DIR config) of
        Inl e \<Rightarrow>
          (Inl e, s,
           [FromDocuments documents (embeddings s)
              (COLLECTION_NAME config) (CHROMA_PERSIST_DIR config)])
      | Inr _ \<Rightarrow>
          (let s1 = s\<lparr>vectorstore := Some
                       \<lparr>collection_name = COLLECTION_NAME config,
                        embedding_function = embeddings s,
                        persist_directory = CHROMA_PERSIST_DIR config\<rparr>\<rparr>;
               calls = [FromDocuments documents (embeddings s)
                          (COLLECTION_NAME config) (CHROMA_PERSIST_DIR config)]
           in case setup_qa_chain s1 of
                Inl e \<Rightarrow> (Inl e, s1, calls)
              | Inr s2 \<Rightarrow> (Inr (length documents), s2, calls)))"

definition load_existing_vectorstore ::
  "collaborators \<Rightarrow> RAGEngine \<Rightarrow> bool outcome" where
  "load_existing_vectorstore env s =
     (case chroma_init env (COLLECTION_NAME config) (embeddings s)
             (CHROMA_PERSIST_DIR config) of
        Inl e \<Rightarrow>
          (Inr False, s,
           [ChromaInit (COLLECTION_NAME config) (embeddings s) (CHROMA_PERSIST_DIR config)])
      | Inr _ \<Rightarrow>
          (let s1 = s\<lparr>vectorstore := Some
                       \<lparr>collection_name = COLLECTION_NAME config,
                        embedding_function = embeddings s,
                        persist_directory = CHROMA_PERSIST_DIR config\<rparr>\<rparr>;
               calls = [ChromaInit (COLLECTION_NAME config) (embeddings s)
                          (CHROMA_PERSIST_DIR config)]
           in case setup_qa_chain s1 of
                Inl e \<Rightarrow> (Inr False, s1, calls)
              | Inr s2 \<Rightarrow> (Inr True, s2, calls)))"

definition query :: "collaborators \<Rightarrow> RAGEngine \<Rightarrow> string \<Rightarrow> query_result outcome" where
  "query env s question =
     (case qa_chain s of
        None \<Rightarrow>
          (Inr \<lparr>answer = ''No documents loaded. Please upload documents first.'',
                sources = []\<rparr>, s, [])
      | Some chain \<Rightarrow>
          (case chain_invoke env chain question of
             Inr res \<Rightarrow>
               (Inr \<lparr>answer = result res, sources = source_documents res\<rparr>, s,
                [Invoke chain question])
           | Inl e \<Rightarrow>
               (Inr \<lparr>answer = ''Error: '' @ str e, sources = []\<rparr>, s,
                [Invoke chain question])))"

text \<open>
  \<^verbatim>\<open>get_stats\<close>: the test \<^verbatim>\<open>if not self.vectorstore\<close> stands before the \<^verbatim>\<open>try\<close>, so a
  length that cannot be computed raises out of the call; only the count inside the
  \<^verbatim>\<open>try\<close> is guarded and answers 0 when it fails.
\<close>

definition get_stats :: "collaborators \<Rightarrow> RAGEngine \<Rightarrow> stats outcome" where
  "get_stats env s =
     (case vectorstore s of
        None \<Rightarrow> (Inr \<lparr>total_chunks = 0\<rparr>, s, [])
      | Some vs \<Rightarrow>
          (case handle_len env vs of
             Inl e \<Rightarrow> (Inl e, s, [Len vs])
           | Inr len \<Rightarrow>
               if len = 0 then (Inr \<lparr>total_chunks = 0\<rparr>, s, [Len vs])
               else (case collection_count env vs of
                       Inr n \<Rightarrow> (Inr \<lparr>total_chunks = n\<rparr>, s, [Len vs, Count vs])
                     | Inl e \<Rightarrow> (Inr \<lparr>total_chunks = 0\<rparr>, s, [Len vs, Count vs]))))"

text \<open>
  \<^verbatim>\<open>clear_database\<close>: the whole body is inside the \<^verbatim>\<open>try\<close>. The test \<^verbatim>\<open>if self.vectorstore\<close>
  asks the store for its length: when that raises, the handler prints and returns
  \<^verbatim>\<open>False\<close>; when the collection is empty the branch is skipped and \<^verbatim>\<open>True\<close> returned with
  both handles kept; otherwise the collection is deleted and both handles are unset.
\<close>

definition clear_database :: "collaborators \<Rightarrow> RAGEngine \<Rightarrow> bool outcome" where
  "clear_database env s =
     (case vectorstore s of
        None \<Rightarrow> (Inr True, s, [])
      | Some vs \<Rightarrow>
          (case handle_len env vs of
             Inl e \<Rightarrow>
               (Inr False, s, [Len vs, Print (''Error clearing database: '' @ str e)])
           | Inr len \<Rightarrow>
               if len = 0 then (Inr True, s, [Len vs])
               else (case delete_collection env vs (COLLECTION_NAME config) of
                       Inr _ \<Rightarrow>
                         (Inr True, s\<lparr>vectorstore := None, qa_chain := None\<rparr>,
                          [Len vs, DeleteCollection vs (COLLECTION_NAME config)])
                     | Inl e \<Rightarrow>
                         (Inr False, s,
                          [Len vs, DeleteCollection vs (COLLECTION_NAME config),
                           Print (''Error clearing database: '' @ str e)]))))"

text \<open>The two states of the engine.\<close>

definition Empty :: "RAGEngine \<Rightarrow> bool" where
  "Empty s = (vectorstore s = None \<and> qa_chain s = None)"

definition Ready :: "RAGEngine \<Rightarrow> bool" where
  "Ready s = (vectorstore s \<noteq> None \<and> qa_chain s \<noteq> None)"

text \<open>
  Sequences of calls on one engine: each step names the operation and the behaviour of the
  collaborators at that moment, and keeps the engine the operation leaves behind, whether
  it returned or raised.
\<close>

datatype operation =
    CreateVectorstore "Document list"
  | LoadExistingVectorstore
  | Query string
  | GetStats
  | ClearDatabase

fun step :: "collaborators \<Rightarrow> RAGEngine \<Rightarrow> operation \<Rightarrow> RAGEngine" where
  "step env s (CreateVectorstore documents) = fst (snd (create_vectorstore env s documents))"
| "step env s LoadExistingVectorstore = fst (snd (load_existing_vectorstore env s))"
| "step env s (Query question) = fst (snd (query env s question))"
| "step env s GetStats = fst (snd (get_stats env s))"
| "step env s ClearDatabase = fst (snd (clear_database env s))"

fun run :: "RAGEngine \<Rightarrow> (collaborators \<times> operation) list \<Rightarrow> RAGEngine" where
  "run s [] = s"
| "run s ((env, op) # rest) = run (step env s op) rest"

section \<open>The document loader (document\_loader.py)\<close>

text \<open>
  \<^verbatim>\<open>str.rfind\<close> for a single character: the highest index holding it, or \<open>-1\<close>.
\<close>

definition rfind :: "char \<Rightarrow> string \<Rightarrow> int" where
  "rfind c p =
     (if c \<in> set p
      then int (length p) - 1 - int (length (takeWhile (\<lambda>x. x \<noteq> c) (rev p)))
      else - 1)"

text \<open>
  \<^verbatim>\<open>os.path.splitext\<close> (POSIX): the extension starts at the last dot of the last path
  component, provided some character other than a dot precedes it in that component;
  otherwise the extension is empty.
\<close>

definition splitext :: "string \<Rightarrow> string \<times> string" where
  "splitext p =
     (let sepIndex = rfind (CHR ''/'') p;
          dotIndex = rfind (CHR ''.'') p
      in if dotIndex > sepIndex \<and>
            list_ex (\<lambda>c. c \<noteq> CHR ''.'')
              (take (nat (dotIndex - (sepIndex + 1))) (drop (nat (sepIndex + 1)) p))
         then (take (nat dotIndex) p, drop (nat dotIndex) p)
         else (p, []))"

text \<open>
  \<^verbatim>\<open>str.lower\<close> on ASCII text: the letters A to Z are lowercased, every other character is
  kept. Paths are taken to be ASCII; on cased characters outside ASCII \<^verbatim>\<open>str.lower\<close> does
  more than this function.
\<close>

definition lower_char :: "char \<Rightarrow> char" where
  "lower_char c =
     (case map_of (zip ''ABCDEFGHIJKLMNOPQRSTUVWXYZ'' ''abcdefghijklmnopqrstuvwxyz'') c of
        Some d \<Rightarrow> d
      | None \<Rightarrow> c)"

definition lower :: "string \<Rightarrow> string" where
  "lower s = map lower_char s"

text \<open>
  \<^verbatim>\<open>load_document\<close>: the extension picks the loader; the \<^verbatim>\<open>ValueError\<close> of the last branch
  is raised inside the \<^verbatim>\<open>try\<close>, so the handler \<^verbatim>\<open>except Exception as e\<close> catches it like
  any failure of the loader and raises \<^verbatim>\<open>Exception(f"Error loading {file_path}: {str(e)}")\<close>.
  Constructing the loader and calling \<^verbatim>\<open>load()\<close> are one external call here.
\<close>

definition choose_loader :: "string \<Rightarrow> exn + loader" where
  "choose_loader ext =
     (if ext = ''.pdf'' then Inr PyPDFLoader
      else if ext = ''.txt'' then Inr TextLoader
      else if ext = ''.docx'' then Inr Docx2txtLoader
      else if ext = ''.md'' then Inr UnstructuredMarkdownLoader
      else Inl (ValueError (''Unsupported file type: '' @ ext)))"

definition load_document :: "collaborators \<Rightarrow> string \<Rightarrow> exn + Document list" where
  "load_document env file_path =
     (let ext = lower (snd (splitext file_path))
      in case (case choose_loader ext of
                 Inl e \<Rightarrow> Inl e
               | Inr ld \<Rightarrow> loader_load env ld file_path) of
           Inl e \<Rightarrow> Inl (Exception (''Error loading '' @ file_path @ '': '' @ str e))
         | Inr documents \<Rightarrow> Inr documents)"

definition split_documents :: "collaborators \<Rightarrow> Document list \<Rightarrow> Document list" where
  "split_documents env documents =
     splitter_split env (CHUNK_SIZE config) (CHUNK_OVERLAP config) documents"

text \<open>The loop of \<^verbatim>\<open>process_documents\<close>, \<open>all_docs\<close> being the list extended so far.\<close>

fun load_all :: "collaborators \<Rightarrow> string list \<Rightarrow> Document list \<Rightarrow> exn + Document list" where
  "load_all env [] all_docs = Inr all_docs"
| "load_all env (file_path # file_paths) all_docs =
     (case load_document env file_path of
        Inl e \<Rightarrow> Inl e
      | Inr docs \<Rightarrow> load_all env file_paths (all_docs @ docs))"

definition process_documents :: "collaborators \<Rightarrow> string list \<Rightarrow> exn + Document list" where
  "process_documents env file_paths =
     (case load_all env file_paths [] of
        Inl e \<Rightarrow> Inl e
      | Inr all_docs \<Rightarrow> Inr (split_documents env all_docs))"

section \<open>The front ends (api.py, app.py)\<close>

text \<open>
  The file system is the set of paths that exist. The operating system is a second
  parameter: the name \<^verbatim>\<open>tempfile\<close> picks, and whether writing the upload or removing a file
  fails. \<^verbatim>\<open>NamedTemporaryFile(delete=False)\<close> creates the file it names; it never reuses an
  existing path.
\<close>

record opsys =
  temp_name :: "string set \<Rightarrow> string \<Rightarrow> exn + string"
  write_upload :: "string \<Rightarrow> string \<Rightarrow> exn + unit"
  unlink_fault :: "string \<Rightarrow> exn + unit"

definition NamedTemporaryFile ::
  "opsys \<Rightarrow> string set \<Rightarrow> string \<Rightarrow> (exn + string) \<times> string set" where
  "NamedTemporaryFile os fs suffix =
     (case temp_name os fs suffix of
        Inl e \<Rightarrow> (Inl e, fs)
      | Inr path \<Rightarrow>
          if path \<in> fs then (Inl (OSError ''No usable temporary file name found''), fs)
          else (Inr path, insert path fs))"

definition unlink :: "opsys \<Rightarrow> string set \<Rightarrow> string \<Rightarrow> (exn + unit) \<times> string set" where
  "unlink os fs path =
     (if path \<in> fs
      then (case unlink_fault os path of
              Inl e \<Rightarrow> (Inl e, fs)
            | Inr _ \<Rightarrow> (Inr (), fs - {path}))
      else (Inl (OSError ''No such file or directory''), fs))"

text \<open>
  The clean-up loop both front ends contain:
  \<^verbatim>\<open>for p in paths: try: os.unlink(p) except: pass\<close>.
\<close>

fun cleanup :: "opsys \<Rightarrow> string set \<Rightarrow> string list \<Rightarrow> string set" where
  "cleanup os fs [] = fs"
| "cleanup os fs (path # paths) = cleanup os (snd (unlink os fs path)) paths"

text \<open>An uploaded file: its name and its bytes (both front ends).\<close>

record UploadFile =
  filename :: string
  content :: string

subsection \<open>api.py\<close>

datatype http_exception = HTTPException nat string

text \<open>What the body of the \<^verbatim>\<open>try\<close> in \<^verbatim>\<open>upload_documents\<close> can raise.\<close>

datatype raised = RaisedHTTP http_exception | Raised exn

text \<open>
  The response of \<^verbatim>\<open>/upload\<close>; its key \<^verbatim>\<open>total_chunks\<close> is the field \<open>chunks_added\<close> (the
  name \<open>total_chunks\<close> is the field of \<open>stats\<close>).
\<close>

record UploadResponse =
  message :: string
  chunks_added :: nat
  files_processed :: nat

text \<open>
  The first loop of \<^verbatim>\<open>upload_documents\<close>. A path enters \<open>temp_files\<close> only after the copy;
  the file exists from the moment \<^verbatim>\<open>NamedTemporaryFile\<close> returns.
\<close>

fun save_uploads ::
  "opsys \<Rightarrow> string set \<Rightarrow> UploadFile list \<Rightarrow> string list
   \<Rightarrow> (raised + unit) \<times> string set \<times> string list" where
  "save_uploads os fs [] temp_files = (Inr (), fs, temp_files)"
| "save_uploads os fs (uploaded_file # files) temp_files =
     (let file_ext = lower (snd (splitext (filename uploaded_file)))
      in if file_ext \<notin> set (SUPPORTED_EXTENSIONS config)
         then (Inl (RaisedHTTP (HTTPException 400
                 (''Unsupported file type: '' @ file_ext
                  @ ''. Supported: ['' @ CHR 0x27 # ''.pdf'' @ CHR 0x27 # '', ''
                  @ CHR 0x27 # ''.txt'' @ CHR 0x27 # '', ''
                  @ CHR 0x27 # ''.docx'' @ CHR 0x27 # '', ''
                  @ CHR 0x27 # ''.md'' @ CHR 0x27 # '']''))),
               fs, temp_files)
         else (case NamedTemporaryFile os fs file_ext of
                 (Inl e, fs1) \<Rightarrow> (Inl (Raised e), fs1, temp_files)
               | (Inr path, fs1) \<Rightarrow>
                   (case write_upload os (content uploaded_file) path of
                      Inl e \<Rightarrow> (Inl (Raised e), fs1, temp_files)
                    | Inr _ \<Rightarrow> save_uploads os fs1 files (temp_files @ [path]))))"

text \<open>
  \<^verbatim>\<open>upload_documents\<close>: the check of an empty request precedes the \<^verbatim>\<open>try\<close>; inside it an
  \<^verbatim>\<open>HTTPException\<close> passes through, any other exception becomes status 500, and the
  \<^verbatim>\<open>finally\<close> clause runs \<open>cleanup\<close> over \<open>temp_files\<close> on every way out.
\<close>

definition upload_documents ::
  "collaborators \<Rightarrow> opsys \<Rightarrow> string set \<Rightarrow> RAGEngine \<Rightarrow> UploadFile list
   \<Rightarrow> (http_exception + UploadResponse) \<times> string set \<times> RAGEngine" where
  "upload_documents env os fs eng files =
     (if files = [] then (Inl (HTTPException 400 ''No files provided''), fs, eng)
      else
        (case save_uploads os fs files [] of
           (saved, fs1, temp_files) \<Rightarrow>
             (let body =
                (case saved of
                   Inl x \<Rightarrow> (Inl x, eng)
                 | Inr _ \<Rightarrow>
                     (case process_documents env temp_files of
                        Inl e \<Rightarrow> (Inl (Raised e), eng)
                      | Inr chunks \<Rightarrow>
                          if chunks = []
                          then (Inl (RaisedHTTP (HTTPException 400
                                  ''No content extracted from documents'')), eng)
                          else (case create_vectorstore env eng chunks of
                                  (Inl e, eng1, calls) \<Rightarrow> (Inl (Raised e), eng1)
                                | (Inr added, eng1, calls) \<Rightarrow>
                                    (Inr \<lparr>message = ''Documents processed successfully'',
                                          chunks_added = added,
                                          files_processed = length files\<rparr>, eng1))));
                  response =
                    (case fst body of
                       Inl (RaisedHTTP h) \<Rightarrow> Inl h
                     | Inl (Raised e) \<Rightarrow>
                         Inl (HTTPException 500 (''Error processing documents: '' @ str e))
                     | Inr r \<Rightarrow> Inr r)
              in (response, cleanup os fs1 temp_files, snd body))))"

text \<open>
  Start of the API process: the engine is constructed, then
  \<^verbatim>\<open>rag_engine.load_existing_vectorstore()\<close> is called and its result dropped.
\<close>

definition startup :: "collaborators \<Rightarrow> exn + RAGEngine" where
  "startup env =
     (case RAGEngine_init env of
        Inl e \<Rightarrow> Inl e
      | Inr s \<Rightarrow> Inr (fst (snd (load_existing_vectorstore env s))))"

subsection \<open>app.py\<close>

text \<open>
  The loop of the "Process Documents" handler: no check of the extension, and the suffix
  of the temporary file is the extension as uploaded.
\<close>

fun save_uploaded ::
  "opsys \<Rightarrow> string set \<Rightarrow> UploadFile list \<Rightarrow> string list
   \<Rightarrow> (exn + unit) \<times> string set \<times> string list" where
  "save_uploaded os fs [] temp_paths = (Inr (), fs, temp_paths)"
| "save_uploaded os fs (uploaded_file # files) temp_paths =
     (case NamedTemporaryFile os fs (snd (splitext (filename uploaded_file))) of
        (Inl e, fs1) \<Rightarrow> (Inl e, fs1, temp_paths)
      | (Inr path, fs1) \<Rightarrow>
          (case write_upload os (content uploaded_file) path of
             Inl e \<Rightarrow> (Inl e, fs1, temp_paths)
           | Inr _ \<Rightarrow> save_uploaded os fs1 files (temp_paths @ [path])))"

text \<open>
  What the handler shows: \<^verbatim>\<open>st.success\<close> with the number of documents and of chunks, or
  \<^verbatim>\<open>st.error\<close> with \<^verbatim>\<open>str(e)\<close>.
\<close>

datatype shown = Success nat nat | Error string

text \<open>
  The handler of the "Process Documents" button. The clean-up loop is the fourth
  statement of the \<^verbatim>\<open>try\<close> block, after \<^verbatim>\<open>create_vectorstore\<close>; the \<^verbatim>\<open>except\<close> clause only
  shows the error. The last component is \<^verbatim>\<open>st.session_state.documents_loaded\<close>.
\<close>

definition process_button ::
  "collaborators \<Rightarrow> opsys \<Rightarrow> string set \<Rightarrow> RAGEngine \<Rightarrow> bool \<Rightarrow> UploadFile list
   \<Rightarrow> shown \<times> string set \<times> RAGEngine \<times> bool" where
  "process_button env os fs eng documents_loaded uploaded_files =
     (case save_uploaded os fs uploaded_files [] of
        (Inl e, fs1, temp_paths) \<Rightarrow> (Error (str e), fs1, eng, documents_loaded)
      | (Inr _, fs1, temp_paths) \<Rightarrow>
          (case process_documents env temp_paths of
             Inl e \<Rightarrow> (Error (str e), fs1, eng, documents_loaded)
           | Inr chunks \<Rightarrow>
               (case create_vectorstore env eng chunks of
                  (Inl e, eng1, calls) \<Rightarrow> (Error (str e), fs1, eng1, documents_loaded)
                | (Inr num_chunks, eng1, calls) \<Rightarrow>
                    (Success (length uploaded_files) num_chunks,
                     cleanup os fs1 temp_paths, eng1, True))))"

section \<open>State predicates and concrete collaborators\<close>

text \<open>The two handles of the engine are set together or unset together.\<close>

definition handles_agree :: "RAGEngine \<Rightarrow> bool" where
  "handles_agree s = ((vectorstore s = None) = (qa_chain s = None))"

text \<open>
  Every handle the engine holds embeds with the embeddings object \<open>E\<close>: the engine's own
  attribute, the vector store, and the store the chain retrieves from.
\<close>

definition embeds_with :: "OllamaEmbeddings \<Rightarrow> RAGEngine \<Rightarrow> bool" where
  "embeds_with E s =
     (embeddings s = E \<and>
      (case vectorstore s of None \<Rightarrow> True | Some vs \<Rightarrow> embedding_function vs = E) \<and>
      (case qa_chain s of None \<Rightarrow> True | Some ch \<Rightarrow> embedding_function (retriever ch) = E))"

text \<open>Concrete inputs on which the statements below are evaluated.\<close>

definition doc_paris :: Document where
  "doc_paris = \<lparr>page_content = ''The capital of France is Paris.'',
                metadata = [(''source'', ''/tmp/upload.txt'')]\<rparr>"

text \<open>
  All services reachable; the collection holds five chunks. The store's words for an
  empty batch are those of one version of the library.
\<close>

definition env_ok :: collaborators where
  "env_ok = \<lparr>
     new_embeddings = (\<lambda>m u. Inr ()),
     persistent_client = (\<lambda>p. Inr ()),
     new_llm = (\<lambda>m u t. Inr ()),
     chroma_from_documents = (\<lambda>d e c p. Inr ()),
     empty_batch_message = ''Expected IDs to be a non-empty list, got 0 IDs'',
     chroma_init = (\<lambda>c e p. Inr ()),
     chain_invoke = (\<lambda>ch q. Inr \<lparr>result = ''Paris'', source_documents = [doc_paris]\<rparr>),
     handle_len = (\<lambda>vs. Inr 5),
     collection_count = (\<lambda>vs. Inr 5),
     delete_collection = (\<lambda>vs n. Inr ()),
     loader_load = (\<lambda>ld p. Inr [doc_paris]),
     splitter_split = (\<lambda>size overlap docs. docs)
   \<rparr>"

text \<open>The model server is down: invoking the chain raises.\<close>

definition env_down :: collaborators where
  "env_down = env_ok\<lparr>chain_invoke := (\<lambda>ch q. Inl (OSError ''Connection refused''))\<rparr>"

text \<open>The index directory is read-only: deleting the collection raises, counting works.\<close>

definition env_readonly :: collaborators where
  "env_readonly =
     env_ok\<lparr>delete_collection := (\<lambda>vs n. Inl (OSError ''attempt to write a readonly database''))\<rparr>"

text \<open>The index directory cannot be opened: the constructor of the store raises.\<close>

definition env_locked :: collaborators where
  "env_locked = env_ok\<lparr>chroma_init := (\<lambda>c e p. Inl (OSError ''unable to open database file''))\<rparr>"

text \<open>
  A new index directory, nothing persisted: the constructor of the store creates the
  collection it does not find and returns; the collection is empty.
\<close>

definition env_new_dir :: collaborators where
  "env_new_dir = env_ok\<lparr>handle_len := (\<lambda>vs. Inr 0), collection_count := (\<lambda>vs. Inr 0)\<rparr>"

text \<open>The index cannot be read: asking for the length of the store raises.\<close>

definition env_unreadable :: collaborators where
  "env_unreadable = env_ok\<lparr>handle_len := (\<lambda>vs. Inl (OSError ''disk I/O error''))\<rparr>"

text \<open>PDF files are corrupt: the PDF loader raises, the other loaders work.\<close>

definition env_corrupt :: collaborators where
  "env_corrupt =
     env_ok\<lparr>loader_load :=
       (\<lambda>ld p. if ld = PyPDFLoader then Inl (ValueError ''EOF marker not found'')
               else Inr [doc_paris])\<rparr>"

text \<open>
  Files without text: the loader returns one document with empty content, and the
  splitter makes no chunk of it.
\<close>

definition env_blank :: collaborators where
  "env_blank =
     env_ok\<lparr>loader_load := (\<lambda>ld p. Inr [\<lparr>page_content = [], metadata = []\<rparr>]),
            splitter_split := (\<lambda>size overlap docs. filter (\<lambda>d. page_content d \<noteq> []) docs)\<rparr>"

text \<open>A loader whose own message speaks of an unsupported file type.\<close>

definition env_odd :: collaborators where
  "env_odd =
     env_ok\<lparr>loader_load :=
       (\<lambda>ld p. Inl (Exception ''b.exe: Unsupported file type: .exe''))\<rparr>"

text \<open>The engine as constructed, and after one ingestion.\<close>

definition engine0 :: RAGEngine where
  "engine0 = \<lparr>embeddings =
                \<lparr>emb_model = ''nomic-embed-text'', emb_base_url = ''http://localhost:11434''\<rparr>,
              chroma_client = ''./chroma_db'',
              llm = \<lparr>llm_model = ''llama3.2:latest'',
                     llm_base_url = ''http://localhost:11434'',
                     temperature = 0\<rparr>,
              vectorstore = None,
              qa_chain = None\<rparr>"

definition store0 :: Chroma where
  "store0 = \<lparr>collection_name = ''document_qa'',
             embedding_function =
               \<lparr>emb_model = ''nomic-embed-text'', emb_base_url = ''http://localhost:11434''\<rparr>,
             persist_directory = ''./chroma_db''\<rparr>"

definition chain0 :: RetrievalQA where
  "chain0 = \<lparr>chain_llm = \<lparr>llm_model = ''llama3.2:latest'',
                           llm_base_url = ''http://localhost:11434'',
                           temperature = 0\<rparr>,
             chain_type = ''stuff'',
             retriever = store0,
             search_k = 3,
             prompt = \<lparr>template = prompt_template,
                       input_variables = [''context'', ''question'']\<rparr>,
             return_source_documents = True\<rparr>"

definition engine_ready :: RAGEngine where
  "engine_ready = step env_ok engine0 (CreateVectorstore [doc_paris])"

text \<open>
  An operating system that never fails; it tells temporary files apart by a run of
  underscores as long as the number of files that exist.
\<close>

definition os_ok :: opsys where
  "os_ok = \<lparr>temp_name =
              (\<lambda>fs suffix. Inr (''/tmp/upload'' @ replicate (card fs) (CHR ''_'') @ suffix)),
            write_upload = (\<lambda>bytes path. Inr ()),
            unlink_fault = (\<lambda>path. Inr ())\<rparr>"

text \<open>The disk is full: the temporary file is created, writing the upload into it fails.\<close>

definition os_full :: opsys where
  "os_full = os_ok\<lparr>write_upload := (\<lambda>bytes path. Inl (OSError ''No space left on device''))\<rparr>"

definition notes_txt :: UploadFile where
  "notes_txt = \<lparr>filename = ''notes.txt'', content = ''The capital of France is Paris.''\<rparr>"

definition report_pdf :: UploadFile where
  "report_pdf = \<lparr>filename = ''report.pdf'', content = ''%PDF-1.7 truncated''\<rparr>"

section \<open>Facts about the concrete inputs\<close>

lemma init_ok: "RAGEngine_init env_ok = Inr engine0"
  by (simp add: RAGEngine_init_def env_ok_def engine0_def config_def)

lemma engine0_Empty: "Empty engine0"
  by (simp add: Empty_def engine0_def)

lemma engine_ready_eq:
  "engine_ready = engine0\<lparr>vectorstore := Some store0, qa_chain := Some chain0\<rparr>"
  by (simp add: engine_ready_def create_vectorstore_def Chroma_from_documents_def
      setup_qa_chain_def env_ok_def engine0_def store0_def chain0_def config_def)

lemma run_example:
  "run engine0 [(env_locked, LoadExistingVectorstore), (env_ok, CreateVectorstore [doc_paris])]
     = engine_ready"
  by (simp add: engine_ready_def load_existing_vectorstore_def env_locked_def env_ok_def)

lemma engine_ready_Ready: "Ready engine_ready"
  by (simp add: Ready_def engine_ready_eq)

lemma ext_exe: "lower (snd (splitext ''notes.exe'')) = ''.exe''"
  by (simp add: splitext_def rfind_def lower_def lower_char_def)

lemma ext_PDF: "lower (snd (splitext ''report.PDF'')) = ''.pdf''"
  by (simp add: splitext_def rfind_def lower_def lower_char_def)

lemma ext_txt: "lower (snd (splitext ''intro.txt'')) = ''.txt''"
  by (simp add: splitext_def rfind_def lower_def lower_char_def)

lemma ext_report: "snd (splitext ''report.pdf'') = ''.pdf''"
  by (simp add: splitext_def rfind_def)

lemma ext_report_lower: "lower (snd (splitext ''report.pdf'')) = ''.pdf''"
  by (simp add: splitext_def rfind_def lower_def lower_char_def)

lemma ext_upload: "lower (snd (splitext ''/tmp/upload.pdf'')) = ''.pdf''"
  by (simp add: splitext_def rfind_def lower_def lower_char_def)

section \<open>Answering a question\<close>

text \<open>
  C1. For every question and whatever the collaborators would do, \<open>query\<close> on an engine in
  the Empty state returns (it does not raise) the result whose answer is the sentence
  "No documents loaded. Please upload documents first." and whose list of sources is empty;
  the engine is unchanged and no external call is made.
\<close>

theorem query_empty:
  "Empty s \<Longrightarrow> query env s question =
     (Inr \<lparr>answer = ''No documents loaded. Please upload documents first.'',
           sources = []\<rparr>, s, [])"
  by (simp add: query_def Empty_def)

theorem query_empty_witness:
  "Empty engine0 \<and> query env_down engine0 ''What is the capital of France?'' =
     (Inr \<lparr>answer = ''No documents loaded. Please upload documents first.'',
           sources = []\<rparr>, engine0, [])"
  using query_empty [OF engine0_Empty, of env_down "''What is the capital of France?''"]
    engine0_Empty
  by simp

text \<open>
  C2. For every question asked of a Ready engine: when invoking the chain (the call that
  embeds the question and generates the answer) raises \<open>e\<close>, \<open>query\<close> returns, it does not
  raise; the answer is "Error: " followed by \<open>str e\<close> and the list of sources is empty.
\<close>

theorem query_failure_is_data:
  assumes "Ready s" and "qa_chain s = Some chain"
    and "chain_invoke env chain question = Inl e"
  shows "query env s question =
           (Inr \<lparr>answer = ''Error: '' @ str e, sources = []\<rparr>, s, [Invoke chain question])"
  using assms by (simp add: query_def)

theorem query_failure_is_data_witness:
  "Ready engine_ready \<and> qa_chain engine_ready = Some chain0 \<and>
   chain_invoke env_down chain0 ''What is the capital of France?''
     = Inl (OSError ''Connection refused'') \<and>
   query env_down engine_ready ''What is the capital of France?'' =
     (Inr \<lparr>answer = ''Error: Connection refused'', sources = []\<rparr>, engine_ready,
      [Invoke chain0 ''What is the capital of France?''])"
proof -
  have c: "qa_chain engine_ready = Some chain0"
    by (simp add: engine_ready_eq)
  have f: "chain_invoke env_down chain0 ''What is the capital of France?''
             = Inl (OSError ''Connection refused'')"
    by (simp add: env_down_def env_ok_def)
  from query_failure_is_data [OF engine_ready_Ready c f] c f engine_ready_Ready
  show ?thesis by simp
qed

section \<open>Ingesting chunks\<close>



text \<open>
  Where the empty sequence comes from. An upload without text gives no chunks. The API
  handler answers with status 400 and never calls the engine; the handler of the
  interactive front end calls \<open>create_vectorstore\<close> on the empty list, which raises, and
  shows the store's error.
\<close>

lemma upload_documents_rejects_no_chunks:
  assumes "files \<noteq> []" and "save_uploads os fs files [] = (Inr (), fs1, temp_files)"
    and "process_documents env temp_files = Inr []"
  shows "upload_documents env os fs eng files =
           (Inl (HTTPException 400 ''No content extracted from documents''),
            cleanup os fs1 temp_files, eng)"
  using assms by (simp add: upload_documents_def)

lemma ext_notes: "snd (splitext ''notes.txt'') = ''.txt''"
  by (simp add: splitext_def rfind_def)

lemma ext_upload_txt: "lower (snd (splitext ''/tmp/upload.txt'')) = ''.txt''"
  by (simp add: splitext_def rfind_def lower_def lower_char_def)

lemma process_button_no_chunks:
  "process_button env_blank os_ok {} engine0 False [notes_txt] =
     (Error ''Expected IDs to be a non-empty list, got 0 IDs'',
      {''/tmp/upload.txt''}, engine0, False)"
  by (simp add: process_button_def notes_txt_def ext_notes NamedTemporaryFile_def os_ok_def
      process_documents_def load_document_def ext_upload_txt choose_loader_def
      split_documents_def env_blank_def env_ok_def create_vectorstore_def
      Chroma_from_documents_def)

section \<open>Clearing the database\<close>

text \<open>
  C10. \<open>clear_database\<close> on an engine whose \<open>vectorstore\<close> is \<open>None\<close> returns \<open>True\<close>, makes no
  external call (so no deletion is attempted, whatever the index would have answered) and
  leaves the engine as it was.
\<close>

theorem clear_on_empty:
  "vectorstore s = None \<Longrightarrow> clear_database env s = (Inr True, s, [])"
  by (simp add: clear_database_def)

theorem clear_on_empty_witness:
  "vectorstore engine0 = None \<and> clear_database env_readonly engine0 = (Inr True, engine0, [])"
  using clear_on_empty [of engine0 env_readonly] by (simp add: engine0_def)

text \<open>
  C7, as amended. \<open>clear_database\<close> never raises. Whenever it returns \<open>True\<close>, \<open>get_stats\<close>
  called next, with the collaborators behaving as they did for the clear, returns a count
  of 0. On an engine whose store holds a collection that is not empty: when the deletion
  succeeds, the named collection was deleted through the store's client, the result is
  \<open>True\<close>, the engine is Empty and \<open>get_stats\<close> answers 0 without an external call; when the
  deletion raises, the result is \<open>False\<close>, the engine is unchanged, and \<open>get_stats\<close> then
  reports the count of the collection that is still there (0 only when counting fails).
  A result \<open>False\<close> always leaves the engine as it was, with its store.
\<close>

theorem clear_then_stats:
  "(\<exists>b. fst (clear_database env s) = Inr b) \<and>
   (fst (clear_database env s) = Inr True \<longrightarrow>
      fst (get_stats env (fst (snd (clear_database env s)))) = Inr \<lparr>total_chunks = 0\<rparr>) \<and>
   (vectorstore s = Some vs \<and> handle_len env vs = Inr len \<and> 0 < len \<and>
    delete_collection env vs (COLLECTION_NAME config) = Inr () \<longrightarrow>
      clear_database env s =
        (Inr True, s\<lparr>vectorstore := None, qa_chain := None\<rparr>,
         [Len vs, DeleteCollection vs (COLLECTION_NAME config)]) \<and>
      Empty (fst (snd (clear_database env s))) \<and>
      get_stats env' (fst (snd (clear_database env s))) =
        (Inr \<lparr>total_chunks = 0\<rparr>, fst (snd (clear_database env s)), [])) \<and>
   (vectorstore s = Some vs \<and> handle_len env vs = Inr len \<and> 0 < len \<and>
    delete_collection env vs (COLLECTION_NAME config) = Inl e \<longrightarrow>
      fst (clear_database env s) = Inr False \<and>
      fst (snd (clear_database env s)) = s \<and>
      fst (get_stats env (fst (snd (clear_database env s)))) =
        (case collection_count env vs of
           Inr n \<Rightarrow> Inr \<lparr>total_chunks = n\<rparr>
         | Inl x \<Rightarrow> Inr \<lparr>total_chunks = 0\<rparr>)) \<and>
   (fst (clear_database env s) = Inr False \<longrightarrow>
      fst (snd (clear_database env s)) = s \<and> vectorstore s \<noteq> None)"
proof (intro conjI impI)
  show "\<exists>b. fst (clear_database env s) = Inr b"
    by (auto simp: clear_database_def split: option.splits sum.splits)
next
  assume "fst (clear_database env s) = Inr True"
  then show "fst (get_stats env (fst (snd (clear_database env s)))) = Inr \<lparr>total_chunks = 0\<rparr>"
    by (auto simp: clear_database_def get_stats_def split: option.splits sum.splits if_splits)
next
  assume a: "vectorstore s = Some vs \<and> handle_len env vs = Inr len \<and> 0 < len \<and>
    delete_collection env vs (COLLECTION_NAME config) = Inr ()"
  then show "clear_database env s =
        (Inr True, s\<lparr>vectorstore := None, qa_chain := None\<rparr>,
         [Len vs, DeleteCollection vs (COLLECTION_NAME config)])"
    by (simp add: clear_database_def)
  from a show "Empty (fst (snd (clear_database env s)))"
    by (simp add: clear_database_def Empty_def)
  from a show "get_stats env' (fst (snd (clear_database env s))) =
        (Inr \<lparr>total_chunks = 0\<rparr>, fst (snd (clear_database env s)), [])"
    by (simp add: clear_database_def get_stats_def)
next
  assume a: "vectorstore s = Some vs \<and> handle_len env vs = Inr len \<and> 0 < len \<and>
    delete_collection env vs (COLLECTION_NAME config) = Inl e"
  then show "fst (clear_database env s) = Inr False"
    by (simp add: clear_database_def)
  from a show s: "fst (snd (clear_database env s)) = s"
    by (simp add: clear_database_def)
  from a show "fst (get_stats env (fst (snd (clear_database env s)))) =
        (case collection_count env vs of
           Inr n \<Rightarrow> Inr \<lparr>total_chunks = n\<rparr>
         | Inl x \<Rightarrow> Inr \<lparr>total_chunks = 0\<rparr>)"
    by (simp add: s get_stats_def split: sum.splits)
next
  assume a: "fst (clear_database env s) = Inr False"
  then show "fst (snd (clear_database env s)) = s"
    by (auto simp: clear_database_def split: option.splits sum.splits if_splits)
  from a show "vectorstore s \<noteq> None"
    by (auto simp: clear_database_def split: option.splits)
qed

theorem clear_then_stats_witness:
  "fst (clear_database env_ok engine_ready) = Inr True \<and>
   fst (get_stats env_ok (fst (snd (clear_database env_ok engine_ready))))
     = Inr \<lparr>total_chunks = 0\<rparr> \<and>
   vectorstore engine_ready = Some store0 \<and> handle_len env_ok store0 = Inr 5 \<and> (0::nat) < 5 \<and>
   delete_collection env_ok store0 (COLLECTION_NAME config) = Inr () \<and>
   Empty (fst (snd (clear_database env_ok engine_ready))) \<and>
   get_stats env_readonly (fst (snd (clear_database env_ok engine_ready))) =
     (Inr \<lparr>total_chunks = 0\<rparr>, fst (snd (clear_database env_ok engine_ready)), []) \<and>
   handle_len env_readonly store0 = Inr 5 \<and>
   delete_collection env_readonly store0 (COLLECTION_NAME config)
     = Inl (OSError ''attempt to write a readonly database'') \<and>
   fst (clear_database env_readonly engine_ready) = Inr False \<and>
   fst (snd (clear_database env_readonly engine_ready)) = engine_ready \<and>
   fst (get_stats env_readonly (fst (snd (clear_database env_readonly engine_ready))))
     = Inr \<lparr>total_chunks = 5\<rparr>"
proof -
  have v: "vectorstore engine_ready = Some store0"
    by (simp add: engine_ready_eq)
  have l: "handle_len env_ok store0 = Inr 5" "handle_len env_readonly store0 = Inr 5"
    by (simp_all add: env_readonly_def env_ok_def)
  have k: "delete_collection env_ok store0 (COLLECTION_NAME config) = Inr ()"
    by (simp add: env_ok_def)
  have d: "delete_collection env_readonly store0 (COLLECTION_NAME config)
             = Inl (OSError ''attempt to write a readonly database'')"
    by (simp add: env_readonly_def env_ok_def)
  have c: "collection_count env_readonly store0 = Inr 5"
    by (simp add: env_readonly_def env_ok_def)
  have p: "(0::nat) < 5" by simp
  from clear_then_stats [of env_ok engine_ready store0 5 env_readonly] v l(1) k p
  have 1: "clear_database env_ok engine_ready =
        (Inr True, engine_ready\<lparr>vectorstore := None, qa_chain := None\<rparr>,
         [Len store0, DeleteCollection store0 (COLLECTION_NAME config)]) \<and>
      Empty (fst (snd (clear_database env_ok engine_ready))) \<and>
      get_stats env_readonly (fst (snd (clear_database env_ok engine_ready))) =
        (Inr \<lparr>total_chunks = 0\<rparr>, fst (snd (clear_database env_ok engine_ready)), [])"
    by blast
  then have t: "fst (clear_database env_ok engine_ready) = Inr True"
    by simp
  with clear_then_stats [of env_ok engine_ready]
  have 2: "fst (get_stats env_ok (fst (snd (clear_database env_ok engine_ready))))
     = Inr \<lparr>total_chunks = 0\<rparr>"
    by blast
  from clear_then_stats [of env_readonly engine_ready store0 5 _
      "OSError ''attempt to write a readonly database''"] v l(2) d p
  have f: "fst (clear_database env_readonly engine_ready) = Inr False \<and>
     fst (snd (clear_database env_readonly engine_ready)) = engine_ready \<and>
     fst (get_stats env_readonly (fst (snd (clear_database env_readonly engine_ready)))) =
       (case collection_count env_readonly store0 of
          Inr n \<Rightarrow> Inr \<lparr>total_chunks = n\<rparr>
        | Inl x \<Rightarrow> Inr \<lparr>total_chunks = 0\<rparr>)"
    by blast
  from f have g: "fst (get_stats env_readonly
        (fst (snd (clear_database env_readonly engine_ready)))) =
       (case collection_count env_readonly store0 of
          Inr n \<Rightarrow> Inr \<lparr>total_chunks = n\<rparr>
        | Inl x \<Rightarrow> Inr \<lparr>total_chunks = 0\<rparr>)"
    by blast
  have 3: "fst (get_stats env_readonly (fst (snd (clear_database env_readonly engine_ready))))
       = Inr \<lparr>total_chunks = 5\<rparr>"
    by (simp only: g c sum.case)
  from t 2 v l k p 1 d f 3 show ?thesis by blast
qed

text \<open>
  C7 as stated fails: on a Ready engine whose index cannot be written, \<open>clear_database\<close>
  returns \<open>False\<close>, the engine keeps its store, and \<open>get_stats\<close> then reports the five chunks
  of the collection.
\<close>

theorem clear_then_stats_counterexample:
  "fst (clear_database env_readonly engine_ready) = Inr False \<and>
   fst (get_stats env_readonly (fst (snd (clear_database env_readonly engine_ready))))
     = Inr \<lparr>total_chunks = 5\<rparr>"
  by (simp add: clear_database_def get_stats_def env_readonly_def env_ok_def engine_ready_eq)

text \<open>
  The length of the store in the two operations, evaluated: over an empty collection
  \<open>clear_database\<close> returns \<open>True\<close> with nothing deleted and the engine as it was; when the
  length cannot be computed, \<open>clear_database\<close> returns \<open>False\<close> before any deletion and
  \<open>get_stats\<close> raises.
\<close>

lemma clear_database_empty_collection:
  "clear_database env_new_dir engine_ready = (Inr True, engine_ready, [Len store0])"
  by (simp add: clear_database_def env_new_dir_def env_ok_def engine_ready_eq)

lemma length_fails:
  "clear_database env_unreadable engine_ready =
     (Inr False, engine_ready,
      [Len store0, Print ''Error clearing database: disk I/O error'']) \<and>
   get_stats env_unreadable engine_ready =
     (Inl (OSError ''disk I/O error''), engine_ready, [Len store0])"
  by (simp add: clear_database_def get_stats_def env_unreadable_def env_ok_def engine_ready_eq)

section \<open>Construction and start-up\<close>

lemma init_Empty: "RAGEngine_init env = Inr s \<Longrightarrow> Empty s"
  by (auto simp: RAGEngine_init_def Empty_def split: sum.splits)

lemma init_embeddings:
  "RAGEngine_init env = Inr s \<Longrightarrow>
     embeddings s = \<lparr>emb_model = ''nomic-embed-text'', emb_base_url = OLLAMA_BASE_URL config\<rparr>"
  by (auto simp: RAGEngine_init_def split: sum.splits)

text \<open>
  What \<open>load_existing_vectorstore\<close> does in general: it never raises; it reports \<open>True\<close> and
  leaves the engine Ready exactly when the constructor of the store returns, and reports
  \<open>False\<close> with the engine unchanged when the constructor raises.
\<close>

lemma load_existing_outcome:
  "load_existing_vectorstore env s =
     (case chroma_init env (COLLECTION_NAME config) (embeddings s)
             (CHROMA_PERSIST_DIR config) of
        Inl e \<Rightarrow>
          (Inr False, s,
           [ChromaInit (COLLECTION_NAME config) (embeddings s) (CHROMA_PERSIST_DIR config)])
      | Inr u \<Rightarrow>
          (Inr True, fst (snd (load_existing_vectorstore env s)),
           [ChromaInit (COLLECTION_NAME config) (embeddings s) (CHROMA_PERSIST_DIR config)]))"
  by (simp add: load_existing_vectorstore_def setup_qa_chain_def Let_def split: sum.splits)

lemma load_existing_Ready:
  "chroma_init env (COLLECTION_NAME config) (embeddings s) (CHROMA_PERSIST_DIR config) = Inr u
     \<Longrightarrow> Ready (fst (snd (load_existing_vectorstore env s)))"
  by (simp add: load_existing_vectorstore_def setup_qa_chain_def Ready_def Let_def)

text \<open>
  C8 fails at a first start on a new index directory. The constructed engine is Empty, as
  the claim says. Nothing is persisted, yet the constructor of the store creates the
  collection and returns: \<open>load_existing_vectorstore\<close> reports \<open>True\<close> and the process starts
  with a Ready engine over a collection of 0 chunks, where the claim has the attempt
  report \<open>False\<close> and the engine stay Empty.
\<close>

theorem startup_on_new_directory:
  "RAGEngine_init env_new_dir = Inr engine0 \<and> Empty engine0 \<and>
   load_existing_vectorstore env_new_dir engine0 =
     (Inr True, engine_ready,
      [ChromaInit ''document_qa''
         \<lparr>emb_model = ''nomic-embed-text'', emb_base_url = ''http://localhost:11434''\<rparr>
         ''./chroma_db'']) \<and>
   startup env_new_dir = Inr engine_ready \<and> Ready engine_ready \<and>
   get_stats env_new_dir engine_ready = (Inr \<lparr>total_chunks = 0\<rparr>, engine_ready, [Len store0])"
proof -
  have i: "RAGEngine_init env_new_dir = Inr engine0"
    by (simp add: RAGEngine_init_def env_new_dir_def env_ok_def engine0_def config_def)
  have l: "load_existing_vectorstore env_new_dir engine0 =
     (Inr True, engine_ready,
      [ChromaInit ''document_qa''
         \<lparr>emb_model = ''nomic-embed-text'', emb_base_url = ''http://localhost:11434''\<rparr>
         ''./chroma_db''])"
    by (simp add: load_existing_vectorstore_def setup_qa_chain_def env_new_dir_def env_ok_def
        engine_ready_eq engine0_def store0_def chain0_def config_def)
  have u: "startup env_new_dir = Inr engine_ready"
    by (simp add: startup_def i l)
  have g: "get_stats env_new_dir engine_ready =
      (Inr \<lparr>total_chunks = 0\<rparr>, engine_ready, [Len store0])"
    by (simp add: get_stats_def env_new_dir_def env_ok_def engine_ready_eq)
  from i engine0_Empty l u engine_ready_Ready g show ?thesis by simp
qed

section \<open>Invariants of the engine\<close>

lemma handles_agree_step: "handles_agree s \<Longrightarrow> handles_agree (step env s op)"
  by (cases op)
     (auto simp: handles_agree_def create_vectorstore_def load_existing_vectorstore_def
        query_def get_stats_def clear_database_def setup_qa_chain_def Let_def
        Chroma_from_documents_def split: sum.splits option.splits if_splits)

lemma handles_agree_run: "handles_agree s \<Longrightarrow> handles_agree (run s steps)"
  by (induction steps arbitrary: s) (auto simp: handles_agree_step)

text \<open>
  C9. \<open>vectorstore\<close> is \<open>None\<close> if and only if \<open>qa_chain\<close> is \<open>None\<close>: after construction and
  after any sequence of operations on the constructed engine, and more generally after
  any single operation (ingest, load, query, statistics, clear) on an engine where it
  held before, whether the operation returned, reported failure or raised, and whatever
  the collaborators did. (Assembling the chain, which follows every assignment of the
  store, is object construction without I/O; see \<open>setup_qa_chain\<close>.)
\<close>

theorem handles_set_together:
  "(RAGEngine_init env = Inr s0 \<longrightarrow> handles_agree (run s0 steps)) \<and>
   (handles_agree s \<longrightarrow> handles_agree (step env' s op))"
proof (intro conjI impI)
  assume "RAGEngine_init env = Inr s0"
  then have "handles_agree s0"
    using init_Empty by (auto simp: handles_agree_def Empty_def)
  then show "handles_agree (run s0 steps)" by (rule handles_agree_run)
next
  assume "handles_agree s"
  then show "handles_agree (step env' s op)" by (rule handles_agree_step)
qed

theorem handles_set_together_witness:
  "RAGEngine_init env_ok = Inr engine0 \<and>
   handles_agree (run engine0
     [(env_locked, LoadExistingVectorstore), (env_ok, CreateVectorstore [doc_paris]),
      (env_down, Query ''What is the capital of France?''), (env_readonly, ClearDatabase),
      (env_ok, GetStats), (env_ok, ClearDatabase)]) \<and>
   handles_agree engine_ready \<and>
   handles_agree (step env_readonly engine_ready ClearDatabase)"
proof -
  have r: "handles_agree engine_ready"
    by (simp add: handles_agree_def engine_ready_eq)
  from handles_set_together [of env_ok engine0 _ engine_ready env_readonly ClearDatabase]
    init_ok r
  show ?thesis by blast
qed

lemma embeds_with_step: "embeds_with E s \<Longrightarrow> embeds_with E (step env s op)"
  by (cases op)
     (auto simp: embeds_with_def create_vectorstore_def load_existing_vectorstore_def
        query_def get_stats_def clear_database_def setup_qa_chain_def Let_def
        Chroma_from_documents_def split: sum.splits option.splits if_splits)

lemma embeds_with_run: "embeds_with E s \<Longrightarrow> embeds_with E (run s steps)"
  by (induction steps arbitrary: s) (auto simp: embeds_with_step)

text \<open>
  C6, as amended. The engine embeds with the model "nomic-embed-text", fixed in the
  constructor, not with the configuration's \<open>EMBEDDING_MODEL\<close>. After any sequence of
  operations on a constructed engine, the engine's embeddings object, the vector store and
  the store the chain retrieves from all carry that one model: ingestion passes it to
  \<^verbatim>\<open>Chroma.from_documents\<close>, and a query invokes a chain whose retriever embeds with it, so
  one collection never holds embeddings of two models.
\<close>

theorem embedding_model_fixed:
  assumes "RAGEngine_init env = Inr s0"
  shows "embeds_with \<lparr>emb_model = ''nomic-embed-text'', emb_base_url = OLLAMA_BASE_URL config\<rparr>
           (run s0 steps) \<and>
         snd (snd (create_vectorstore env' (run s0 steps) documents)) =
           [FromDocuments documents
              \<lparr>emb_model = ''nomic-embed-text'', emb_base_url = OLLAMA_BASE_URL config\<rparr>
              (COLLECTION_NAME config) (CHROMA_PERSIST_DIR config)] \<and>
         (case qa_chain (run s0 steps) of
            None \<Rightarrow> True
          | Some ch \<Rightarrow>
              snd (snd (query env' (run s0 steps) question)) = [Invoke ch question] \<and>
              emb_model (embedding_function (retriever ch)) = ''nomic-embed-text'')"
proof -
  let ?E = "\<lparr>emb_model = ''nomic-embed-text'', emb_base_url = OLLAMA_BASE_URL config\<rparr>"
  have "embeds_with ?E s0"
    using init_embeddings [OF assms] init_Empty [OF assms]
    by (simp add: embeds_with_def Empty_def)
  then have inv: "embeds_with ?E (run s0 steps)" by (rule embeds_with_run)
  have calls: "snd (snd (create_vectorstore env' (run s0 steps) documents)) =
      [FromDocuments documents ?E (COLLECTION_NAME config) (CHROMA_PERSIST_DIR config)]"
    using inv
    by (simp add: create_vectorstore_def Chroma_from_documents_def embeds_with_def
        setup_qa_chain_def Let_def split: sum.splits)
  have q: "(case qa_chain (run s0 steps) of
            None \<Rightarrow> True
          | Some ch \<Rightarrow>
              snd (snd (query env' (run s0 steps) question)) = [Invoke ch question] \<and>
              emb_model (embedding_function (retriever ch)) = ''nomic-embed-text'')"
    using inv by (auto simp: embeds_with_def query_def split: option.splits sum.splits)
  from inv calls q show ?thesis by simp
qed

theorem embedding_model_fixed_witness:
  "RAGEngine_init env_ok = Inr engine0 \<and>
   embeds_with \<lparr>emb_model = ''nomic-embed-text'', emb_base_url = OLLAMA_BASE_URL config\<rparr>
     engine_ready \<and>
   snd (snd (create_vectorstore env_down engine_ready [doc_paris])) =
     [FromDocuments [doc_paris]
        \<lparr>emb_model = ''nomic-embed-text'', emb_base_url = OLLAMA_BASE_URL config\<rparr>
        (COLLECTION_NAME config) (CHROMA_PERSIST_DIR config)] \<and>
   snd (snd (query env_down engine_ready ''What is the capital of France?'')) =
     [Invoke chain0 ''What is the capital of France?''] \<and>
   emb_model (embedding_function (retriever chain0)) = ''nomic-embed-text''"
proof -
  have c: "qa_chain engine_ready = Some chain0"
    by (simp add: engine_ready_eq)
  from embedding_model_fixed [OF init_ok, of
      "[(env_locked, LoadExistingVectorstore), (env_ok, CreateVectorstore [doc_paris])]"
      env_down "[doc_paris]" "''What is the capital of France?''"]
  show ?thesis
    by (simp only: run_example c option.case init_ok simp_thms)
qed

text \<open>
  C6 as stated fails: the constructed engine embeds with "nomic-embed-text", the
  configuration names "all-MiniLM-L6-v2", and the ingestion call is made with the former.
\<close>

theorem embedding_model_counterexample:
  "RAGEngine_init env_ok = Inr engine0 \<and>
   emb_model (embeddings engine0) = ''nomic-embed-text'' \<and>
   EMBEDDING_MODEL config = ''all-MiniLM-L6-v2'' \<and>
   emb_model (embeddings engine0) \<noteq> EMBEDDING_MODEL config \<and>
   snd (snd (create_vectorstore env_ok engine0 [doc_paris])) =
     [FromDocuments [doc_paris]
        \<lparr>emb_model = ''nomic-embed-text'', emb_base_url = ''http://localhost:11434''\<rparr>
        ''document_qa'' ''./chroma_db'']"
proof -
  have m: "emb_model (embeddings engine0) = ''nomic-embed-text''"
    by (simp add: engine0_def)
  have c: "EMBEDDING_MODEL config = ''all-MiniLM-L6-v2''"
    by (simp add: config_def)
  have d: "emb_model (embeddings engine0) \<noteq> EMBEDDING_MODEL config"
    by (simp add: m c)
  have l: "snd (snd (create_vectorstore env_ok engine0 [doc_paris])) =
     [FromDocuments [doc_paris]
        \<lparr>emb_model = ''nomic-embed-text'', emb_base_url = ''http://localhost:11434''\<rparr>
        ''document_qa'' ''./chroma_db'']"
    by (simp add: engine0_def config_def create_vectorstore_def Chroma_from_documents_def
        setup_qa_chain_def env_ok_def)
  from init_ok m c d l show ?thesis by blast
qed

section \<open>Loading documents\<close>

lemma choose_loader_unsupported:
  "ext \<notin> set (SUPPORTED_EXTENSIONS config) \<Longrightarrow>
     choose_loader ext = Inl (ValueError (''Unsupported file type: '' @ ext))"
  by (simp add: choose_loader_def config_def)

lemma choose_loader_supported:
  "ext \<in> set (SUPPORTED_EXTENSIONS config) \<Longrightarrow> \<exists>ld. choose_loader ext = Inr ld"
  by (auto simp: choose_loader_def config_def)

lemma load_document_unsupported:
  "lower (snd (splitext p)) \<notin> set (SUPPORTED_EXTENSIONS config) \<Longrightarrow>
     load_document env p =
       Inl (Exception (''Error loading '' @ p @ '': Unsupported file type: ''
                       @ lower (snd (splitext p))))"
  by (simp add: load_document_def choose_loader_unsupported)

lemma load_document_loader_fails:
  "choose_loader (lower (snd (splitext p))) = Inr ld \<Longrightarrow> loader_load env ld p = Inl e \<Longrightarrow>
     load_document env p = Inl (Exception (''Error loading '' @ p @ '': '' @ str e))"
  by (simp add: load_document_def)

lemma load_document_raises_Exception:
  "load_document env p = Inl e \<Longrightarrow> class_name e = ''Exception''"
  by (auto simp: load_document_def Let_def split: sum.splits)

lemma load_all_raises_Exception:
  "load_all env ps acc = Inl e \<Longrightarrow> class_name e = ''Exception''"
  by (induction ps arbitrary: acc)
     (auto split: sum.splits dest: load_document_raises_Exception)

lemma load_all_append:
  "load_all env ps acc = Inr docs \<Longrightarrow> load_all env (ps @ qs) acc = load_all env qs docs"
  by (induction ps arbitrary: acc) (auto split: sum.splits)

lemma load_all_member_fails:
  "p \<in> set ps \<Longrightarrow> load_document env p = Inl e \<Longrightarrow> \<exists>x. load_all env ps acc = Inl x"
  by (induction ps arbitrary: acc) (auto split: sum.splits)

text \<open>
  C4, as amended. \<open>process_documents\<close> fails on every list holding a path whose lowercased
  extension is outside the accepted set, and every exception it raises has the one class
  \<^verbatim>\<open>Exception\<close>. When the paths before \<open>p\<close> load, the exception is the one of \<open>p\<close>: its
  message is "Error loading p: " followed by "Unsupported file type: " and the extension
  when the extension is not accepted, and followed by the message of the loader's
  exception when the chosen loader raises. The two failures differ in the text of the
  message only.
\<close>

theorem process_documents_failures:
  assumes "load_all env before [] = Inr docs"
  shows "(lower (snd (splitext p)) \<notin> set (SUPPORTED_EXTENSIONS config) \<longrightarrow>
            process_documents env (before @ p # rest) =
              Inl (Exception (''Error loading '' @ p @ '': Unsupported file type: ''
                              @ lower (snd (splitext p))))) \<and>
         (choose_loader (lower (snd (splitext p))) = Inr ld \<and> loader_load env ld p = Inl e \<longrightarrow>
            process_documents env (before @ p # rest) =
              Inl (Exception (''Error loading '' @ p @ '': '' @ str e))) \<and>
         (q \<in> set paths \<and> lower (snd (splitext q)) \<notin> set (SUPPORTED_EXTENSIONS config) \<longrightarrow>
            (\<exists>x. process_documents env paths = Inl x)) \<and>
         (process_documents env paths = Inl x \<longrightarrow> class_name x = ''Exception'')"
proof (intro conjI impI)
  assume "lower (snd (splitext p)) \<notin> set (SUPPORTED_EXTENSIONS config)"
  then show "process_documents env (before @ p # rest) =
      Inl (Exception (''Error loading '' @ p @ '': Unsupported file type: ''
                      @ lower (snd (splitext p))))"
    using load_all_append [OF assms, of "p # rest"]
    by (simp add: process_documents_def load_document_unsupported)
next
  assume "choose_loader (lower (snd (splitext p))) = Inr ld \<and> loader_load env ld p = Inl e"
  then show "process_documents env (before @ p # rest) =
      Inl (Exception (''Error loading '' @ p @ '': '' @ str e))"
    using load_all_append [OF assms, of "p # rest"]
    by (simp add: process_documents_def load_document_loader_fails)
next
  assume "q \<in> set paths \<and> lower (snd (splitext q)) \<notin> set (SUPPORTED_EXTENSIONS config)"
  then obtain y where "load_all env paths [] = Inl y"
    using load_all_member_fails [of q paths env _ "[]"] load_document_unsupported [of q env]
    by blast
  then show "\<exists>x. process_documents env paths = Inl x"
    by (simp add: process_documents_def)
next
  assume "process_documents env paths = Inl x"
  then show "class_name x = ''Exception''"
    by (auto simp: process_documents_def split: sum.splits dest: load_all_raises_Exception)
qed

theorem process_documents_failures_witness:
  "load_all env_corrupt [''intro.txt''] [] = Inr [doc_paris] \<and>
   lower (snd (splitext ''notes.exe'')) \<notin> set (SUPPORTED_EXTENSIONS config) \<and>
   process_documents env_corrupt ([''intro.txt''] @ ''notes.exe'' # [''report.PDF'']) =
     Inl (Exception ''Error loading notes.exe: Unsupported file type: .exe'') \<and>
   choose_loader (lower (snd (splitext ''report.PDF''))) = Inr PyPDFLoader \<and>
   loader_load env_corrupt PyPDFLoader ''report.PDF''
     = Inl (ValueError ''EOF marker not found'') \<and>
   process_documents env_corrupt ([''intro.txt''] @ ''report.PDF'' # [''notes.exe'']) =
     Inl (Exception ''Error loading report.PDF: EOF marker not found'') \<and>
   ''notes.exe'' \<in> set [''report.PDF'', ''notes.exe''] \<and>
   (\<exists>x. process_documents env_corrupt [''report.PDF'', ''notes.exe''] = Inl x) \<and>
   class_name (Exception ''Error loading report.PDF: EOF marker not found'') = ''Exception''"
proof -
  have b: "load_all env_corrupt [''intro.txt''] [] = Inr [doc_paris]"
    by (simp add: load_document_def ext_txt choose_loader_def env_corrupt_def env_ok_def)
  have u: "lower (snd (splitext ''notes.exe'')) \<notin> set (SUPPORTED_EXTENSIONS config)"
    by (simp add: ext_exe config_def)
  have c: "choose_loader (lower (snd (splitext ''report.PDF''))) = Inr PyPDFLoader"
    by (simp add: ext_PDF choose_loader_def)
  have l: "loader_load env_corrupt PyPDFLoader ''report.PDF''
             = Inl (ValueError ''EOF marker not found'')"
    by (simp add: env_corrupt_def env_ok_def)
  have m: "''notes.exe'' \<in> set [''report.PDF'', ''notes.exe'']"
    by simp
  from process_documents_failures [OF b, where p = "''notes.exe''" and rest = "[''report.PDF'']"
      and q = "''notes.exe''" and paths = "[''report.PDF'', ''notes.exe'']"] u m
  have 1: "process_documents env_corrupt ([''intro.txt''] @ ''notes.exe'' # [''report.PDF'']) =
     Inl (Exception ''Error loading notes.exe: Unsupported file type: .exe'') \<and>
     (\<exists>x. process_documents env_corrupt [''report.PDF'', ''notes.exe''] = Inl x)"
    by (simp add: ext_exe)
  from process_documents_failures [OF b, where p = "''report.PDF''" and rest = "[''notes.exe'']"
      and ld = PyPDFLoader and e = "ValueError ''EOF marker not found''"
      and paths = "[''intro.txt''] @ ''report.PDF'' # [''notes.exe'']"
      and x = "Exception ''Error loading report.PDF: EOF marker not found''"] c l
  have 2: "process_documents env_corrupt ([''intro.txt''] @ ''report.PDF'' # [''notes.exe'']) =
     Inl (Exception ''Error loading report.PDF: EOF marker not found'') \<and>
     class_name (Exception ''Error loading report.PDF: EOF marker not found'') = ''Exception''"
    by simp
  from b u c l m 1 2 show ?thesis by blast
qed

text \<open>
  C4 as stated fails: the unsupported extension and the unreadable PDF both end in an
  exception of class \<^verbatim>\<open>Exception\<close>; the \<^verbatim>\<open>ValueError\<close> of the first never reaches the caller.
\<close>

theorem loader_error_kinds_counterexample:
  "process_documents env_corrupt [''notes.exe''] =
     Inl (Exception ''Error loading notes.exe: Unsupported file type: .exe'') \<and>
   process_documents env_corrupt [''report.PDF''] =
     Inl (Exception ''Error loading report.PDF: EOF marker not found'') \<and>
   class_name (Exception ''Error loading notes.exe: Unsupported file type: .exe'') =
   class_name (Exception ''Error loading report.PDF: EOF marker not found'')"
  by (simp add: process_documents_def load_document_def ext_exe ext_PDF choose_loader_def
      env_corrupt_def env_ok_def)

text \<open>
  Nor does the message always tell the two apart: an accepted file whose loader raises and
  a path with an extension that is not accepted can end in the very same exception.
\<close>

lemma loader_errors_can_coincide:
  "load_document env_odd ''a.pdf'' =
     Inl (Exception ''Error loading a.pdf: b.exe: Unsupported file type: .exe'') \<and>
   load_document env_odd ''a.pdf: b.exe'' =
     Inl (Exception ''Error loading a.pdf: b.exe: Unsupported file type: .exe'') \<and>
   lower (snd (splitext ''a.pdf'')) \<in> set (SUPPORTED_EXTENSIONS config) \<and>
   lower (snd (splitext ''a.pdf: b.exe'')) \<notin> set (SUPPORTED_EXTENSIONS config)"
proof -
  have 1: "lower (snd (splitext ''a.pdf'')) = ''.pdf''"
    by (simp add: splitext_def rfind_def lower_def lower_char_def)
  have 2: "lower (snd (splitext ''a.pdf: b.exe'')) = ''.exe''"
    by (simp add: splitext_def rfind_def lower_def lower_char_def)
  show ?thesis
    by (simp add: load_document_def 1 2 choose_loader_def env_odd_def env_ok_def config_def)
qed

section \<open>Temporary files of the front ends\<close>

lemma cleanup_all:
  "(\<And>p. unlink_fault os p = Inr ()) \<Longrightarrow> cleanup os fs ps = fs - set ps"
  by (induction ps arbitrary: fs) (auto simp: unlink_def)

lemma save_uploads_fs:
  "(\<And>b p. write_upload os b p = Inr ()) \<Longrightarrow> save_uploads os fs files tf0 = (r, fs1, tf) \<Longrightarrow>
     \<exists>new. tf = tf0 @ new \<and> fs1 = fs \<union> set new \<and> set new \<inter> fs = {}"
proof (induction files arbitrary: fs tf0)
  case Nil
  then show ?case by simp
next
  case (Cons f files)
  show ?case
  proof (cases "lower (snd (splitext (filename f))) \<notin> set (SUPPORTED_EXTENSIONS config)")
    case True
    with Cons.prems(2) show ?thesis by (simp add: Let_def)
  next
    case False
    show ?thesis
    proof (cases "NamedTemporaryFile os fs (lower (snd (splitext (filename f))))")
      case (Pair a fsa)
      show ?thesis
      proof (cases a)
        case (Inl e)
        with Pair False Cons.prems(2) show ?thesis
          by (auto simp: Let_def NamedTemporaryFile_def split: sum.splits if_splits)
      next
        case (Inr path)
        with Pair have fresh: "path \<notin> fs" and fsa: "fsa = insert path fs"
          by (auto simp: NamedTemporaryFile_def split: sum.splits if_splits)
        from Pair Inr False Cons.prems have
          "save_uploads os fsa files (tf0 @ [path]) = (r, fs1, tf)"
          by (simp add: Let_def)
        from Cons.IH [OF Cons.prems(1) this] obtain new where
          n: "tf = (tf0 @ [path]) @ new" "fs1 = fsa \<union> set new" "set new \<inter> fsa = {}"
          by blast
        with fresh fsa have "tf = tf0 @ (path # new) \<and> fs1 = fs \<union> set (path # new) \<and>
            set (path # new) \<inter> fs = {}"
          by auto
        then show ?thesis by blast
      qed
    qed
  qed
qed

text \<open>
  The API handler, for comparison: when writing the uploads and removing files do not
  fail, the file system after \<open>upload_documents\<close> is the one before, on every way out.
\<close>

lemma upload_documents_cleans_up:
  assumes w: "\<And>b p. write_upload os b p = Inr ()"
    and u: "\<And>p. unlink_fault os p = Inr ()"
  shows "fst (snd (upload_documents env os fs eng files)) = fs"
proof (cases "files = []")
  case True
  then show ?thesis by (simp add: upload_documents_def)
next
  case False
  obtain r fs1 tf where s: "save_uploads os fs files [] = (r, fs1, tf)"
    by (cases "save_uploads os fs files []") auto
  from save_uploads_fs [OF w s] have "fs1 = fs \<union> set tf" "set tf \<inter> fs = {}"
    by auto
  then have "cleanup os fs1 tf = fs"
    using cleanup_all [of os fs1 tf, OF u] by auto
  with False s show ?thesis
    by (simp add: upload_documents_def Let_def)
qed

lemma upload_documents_corrupt_pdf:
  "upload_documents env_corrupt os_ok {} engine0 [report_pdf] =
     (Inl (HTTPException 500
        ''Error processing documents: Error loading /tmp/upload.pdf: EOF marker not found''),
      {}, engine0)"
  by (simp add: upload_documents_def report_pdf_def ext_report_lower config_def
      NamedTemporaryFile_def os_ok_def unlink_def Let_def
      process_documents_def load_document_def ext_upload choose_loader_def
      env_corrupt_def env_ok_def)

text \<open>
  In the API handler a file whose copy fails was created but never entered \<open>temp_files\<close>,
  so the \<^verbatim>\<open>finally\<close> clause does not remove it.
\<close>

lemma upload_documents_write_fails:
  "upload_documents env_ok os_full {} engine0 [report_pdf] =
     (Inl (HTTPException 500 ''Error processing documents: No space left on device''),
      {''/tmp/upload.pdf''}, engine0)"
  by (simp add: upload_documents_def report_pdf_def ext_report_lower config_def
      NamedTemporaryFile_def os_full_def os_ok_def Let_def)

lemma save_uploaded_paths:
  "save_uploaded os fs files tp0 = (r, fs1, tp) \<Longrightarrow> set tp0 \<subseteq> fs \<Longrightarrow> set tp \<subseteq> fs1"
proof (induction files arbitrary: fs tp0)
  case Nil
  then show ?case by simp
next
  case (Cons f files)
  show ?case
  proof (cases "NamedTemporaryFile os fs (snd (splitext (filename f)))")
    case (Pair a fsa)
    show ?thesis
    proof (cases a)
      case (Inl e)
      with Pair Cons.prems show ?thesis
        by (auto simp: NamedTemporaryFile_def split: sum.splits if_splits)
    next
      case (Inr path)
      with Pair have fsa: "fsa = insert path fs"
        by (auto simp: NamedTemporaryFile_def split: sum.splits if_splits)
      show ?thesis
      proof (cases "write_upload os (content f) path")
        case (Inl e)
        with Pair Inr fsa Cons.prems show ?thesis by auto
      next
        case w: (Inr u)
        with Pair Inr Cons.prems(1) have
          "save_uploaded os fsa files (tp0 @ [path]) = (r, fs1, tp)"
          by simp
        moreover from fsa Cons.prems(2) have "set (tp0 @ [path]) \<subseteq> fsa"
          by auto
        ultimately show ?thesis by (rule Cons.IH)
      qed
    qed
  qed
qed

text \<open>
  The interactive handler in general: when the uploads were staged and loading them
  raises, every staged file is still there when the handler is done.
\<close>

lemma process_button_keeps_files_on_failure:
  assumes "save_uploaded os fs files [] = (Inr (), fs1, temp_paths)"
    and "process_documents env temp_paths = Inl e"
  shows "process_button env os fs eng documents_loaded files =
           (Error (str e), fs1, eng, documents_loaded) \<and> set temp_paths \<subseteq> fs1"
  using assms save_uploaded_paths [OF assms(1)]
  by (simp add: process_button_def)

text \<open>
  C5 fails in the interactive front end. One corrupt PDF is uploaded and "Process
  Documents" pressed, on an empty file system: the loader raises, the handler shows the
  error, and the staged file \<^verbatim>\<open>/tmp/upload.pdf\<close> is still there afterwards. The API handler
  on the same upload (lemma \<open>upload_documents_corrupt_pdf\<close>) leaves no file.
\<close>

theorem process_button_leaves_temp_file:
  "process_button env_corrupt os_ok {} engine0 False [report_pdf] =
     (Error ''Error loading /tmp/upload.pdf: EOF marker not found'',
      {''/tmp/upload.pdf''}, engine0, False)"
  by (simp add: process_button_def report_pdf_def ext_report NamedTemporaryFile_def os_ok_def
      process_documents_def load_document_def ext_upload choose_loader_def
      env_corrupt_def env_ok_def)

end
